theory Spec2Isabelle
  imports Complex_Main
begin

section \<open>The UEMCP command server: data model\<close>

text \<open>
  The development follows \<^verbatim>\<open>Source/UEMCP/Private/UEMCPTCPServer.cpp\<close>. Pointers that the
  code tests against \<^verbatim>\<open>nullptr\<close> are options; pointers stored in containers after such a
  test are plain handles. A dereference of a null pointer and an array access out of
  range stop the process: both are values of type \<open>fault\<close>.
\<close>

type_synonym sock = nat
  \<comment> \<open>\<^verbatim>\<open>FSocket*\<close>, non-null: the identity of a socket object\<close>
type_synonym uclass = nat
  \<comment> \<open>\<^verbatim>\<open>UClass*\<close>, non-null\<close>
type_synonym uworld = nat
  \<comment> \<open>\<^verbatim>\<open>UWorld*\<close>, non-null\<close>
type_synonym aactor = string
  \<comment> \<open>\<^verbatim>\<open>AActor*\<close>, non-null, known to the code only through \<^verbatim>\<open>GetName()\<close>\<close>
type_synonym FVector = "real \<times> real \<times> real"
type_synonym FRotator = "real \<times> real \<times> real"

definition ZeroRotator :: FRotator where
  "ZeroRotator = (0, 0, 0)"

datatype fault = NullDereference | IndexOutOfBounds

datatype verbosity = Log | Warning | Error

datatype fmt_arg = ArgS string | ArgD int

datatype ESocketConnectionState = SCS_NotConnected | SCS_Connected | SCS_ConnectionError

datatype EJson =
    EJson_None | EJson_Null | EJson_String | EJson_Number | EJson_Boolean | EJson_Array
  | EJson_Object

text \<open>
  What the code does to the outside world, in the order it does it: one constructor per
  log line (\<^verbatim>\<open>UE_LOG\<close> with its verbosity, format string and arguments) and per call into
  the engine or the socket layer.
\<close>

datatype event =
    UE_LOG verbosity string "fmt_arg list"
  | Call_FindObject string
  | Call_World
  | Call_SpawnActor uworld uclass FVector FRotator
  | Call_Listening int
  | Call_HasPendingConnection sock
  | Call_Accept sock
  | Call_HasPendingData sock
  | Call_Recv sock
  | Call_GetConnectionState sock
  | Call_Close sock
  | Call_DestroySocket sock

text \<open>
  The engine is not part of the repository; the code sees it through the calls below, which
  are parameters of the model. \<open>'o\<close> is \<^verbatim>\<open>TSharedPtr<FJsonObject>\<close> (valid), \<open>'v\<close> is
  \<^verbatim>\<open>TSharedPtr<FJsonValue>\<close>, \<open>'w\<close> is the state of the engine's object system and world.
  \<^item> \<open>Deserialize\<close>: \<^verbatim>\<open>FJsonSerializer::Deserialize(Reader, JsonObject) && JsonObject.IsValid()\<close>;
  \<^item> \<open>TryGetStringField\<close>, \<open>TryGetObjectField\<close>, \<open>TryGetArrayField\<close>: the members of
    \<^verbatim>\<open>FJsonObject\<close>, \<open>None\<close> when they return false;
  \<^item> \<open>AsNumber\<close>: \<^verbatim>\<open>FJsonValue::AsNumber()\<close>;
  \<^item> \<open>JsonType\<close>: the member \<^verbatim>\<open>FJsonValue::Type\<close>, which tells what kind of value was read.
    The code never reads it; it serves to say which values are numbers;
  \<^item> \<open>FindObject\<close>: \<^verbatim>\<open>FindObject<UClass>(ANY_PACKAGE, Name)\<close>;
  \<^item> \<open>GEngine\<close>: the global engine pointer, read as the list of \<^verbatim>\<open>World()\<close> of its world
    contexts;
  \<^item> \<open>SpawnActor\<close>: \<^verbatim>\<open>UWorld::SpawnActor<AActor>\<close>, which changes the world.
\<close>

record ('o, 'v, 'w) engine =
  Deserialize :: "string \<Rightarrow> 'o option"
  TryGetStringField :: "'o \<Rightarrow> string \<Rightarrow> string option"
  TryGetObjectField :: "'o \<Rightarrow> string \<Rightarrow> 'o option"
  TryGetArrayField :: "'o \<Rightarrow> string \<Rightarrow> 'v list option"
  AsNumber :: "'v \<Rightarrow> real"
  JsonType :: "'v \<Rightarrow> EJson"
  FindObject :: "'w \<Rightarrow> string \<Rightarrow> uclass option"
  GEngine :: "'w \<Rightarrow> uworld option list option"
  SpawnActor :: "'w \<Rightarrow> uworld \<Rightarrow> uclass \<Rightarrow> FVector \<Rightarrow> FRotator \<Rightarrow> aactor option \<times> 'w"

section \<open>HandleCommand\<close>

text \<open>
  \<^verbatim>\<open>Intent == TEXT("spawn_actor")\<close> is \<^verbatim>\<open>FString::operator==\<close>, which compares two strings
  without regard to the case of the letters A to Z.
\<close>

definition ToLower :: "char \<Rightarrow> char" where
  "ToLower c =
     (case map_of (zip ''ABCDEFGHIJKLMNOPQRSTUVWXYZ'' ''abcdefghijklmnopqrstuvwxyz'') c of
        Some l \<Rightarrow> l
      | None \<Rightarrow> c)"

definition FString_eq :: "string \<Rightarrow> string \<Rightarrow> bool" where
  "FString_eq a b = (map ToLower a = map ToLower b)"

definition invalid_location :: event where
  "invalid_location =
     UE_LOG Error ''Invalid 'location' parameter for spawn_actor. Must be an array of 3 numbers.'' []"

definition HandleCommand :: "('o, 'v, 'w) engine \<Rightarrow> 'w \<Rightarrow> string \<Rightarrow> fault + ('w \<times> event list)" where
  "HandleCommand E w JsonString =
    (case Deserialize E JsonString of
       None \<Rightarrow> Inr (w, [UE_LOG Error ''Failed to parse JSON command: %s'' [ArgS JsonString]])
     | Some JsonObject \<Rightarrow>
    (case TryGetStringField E JsonObject ''intent'' of
       None \<Rightarrow> Inr (w, [UE_LOG Error ''Missing 'intent' field in command.'' []])
     | Some Intent \<Rightarrow>
    if FString_eq Intent ''spawn_actor'' then
      (case TryGetObjectField E JsonObject ''parameters'' of
         None \<Rightarrow> Inr (w, [UE_LOG Error ''Missing 'parameters' for spawn_actor.'' []])
       | Some ParametersObject \<Rightarrow>
      (case TryGetStringField E ParametersObject ''class'' of
         None \<Rightarrow> Inr (w, [UE_LOG Error ''Missing 'class' parameter for spawn_actor.'' []])
       | Some ClassName \<Rightarrow>
      (case TryGetArrayField E ParametersObject ''location'' of
         None \<Rightarrow> Inr (w, [invalid_location])
       | Some LocationArray \<Rightarrow>
      if length LocationArray \<noteq> 3 then Inr (w, [invalid_location])
      else
        let Location = (AsNumber E (LocationArray ! 0),
                        AsNumber E (LocationArray ! 1),
                        AsNumber E (LocationArray ! 2))
        in
        (case FindObject E w ClassName of
           None \<Rightarrow> Inr (w, [Call_FindObject ClassName,
                             UE_LOG Error ''Could not find class: %s'' [ArgS ClassName]])
         | Some ActorClass \<Rightarrow>
        (case GEngine E w of
           None \<Rightarrow> Inl NullDereference
         | Some [] \<Rightarrow> Inl IndexOutOfBounds
         | Some (None # _) \<Rightarrow>
             Inr (w, [Call_FindObject ClassName, Call_World,
                      UE_LOG Error ''Could not get world context.'' []])
         | Some (Some World # _) \<Rightarrow>
        (case SpawnActor E w World ActorClass Location ZeroRotator of
           (Some NewActor, w') \<Rightarrow>
             Inr (w', [Call_FindObject ClassName, Call_World,
                       Call_SpawnActor World ActorClass Location ZeroRotator,
                       UE_LOG Log ''Successfully spawned actor: %s'' [ArgS NewActor]])
         | (None, w') \<Rightarrow>
             Inr (w', [Call_FindObject ClassName, Call_World,
                       Call_SpawnActor World ActorClass Location ZeroRotator,
                       UE_LOG Error ''Failed to spawn actor of class: %s'' [ArgS ClassName]])))))))
    else Inr (w, [UE_LOG Warning ''Unknown intent: %s'' [ArgS Intent]])))"

section \<open>The socket layer and the server object\<close>

text \<open>
  The answers of the socket layer during one call of the server. A socket is polled once
  per tick (the connection list holds no socket twice), so the answers are functions of
  the socket.
  \<^item> \<open>SocketSubsystem\<close>: \<^verbatim>\<open>ISocketSubsystem::Get(PLATFORM_SOCKETSUBSYSTEM)\<close> is not null;
  \<^item> \<open>Listening\<close>: the socket built by
    \<^verbatim>\<open>FTcpSocketBuilder(..).AsReusable().BoundToEndpoint(Endpoint).Listening(8)\<close> for the port
    of the endpoint, a \<^verbatim>\<open>uint16\<close>;
  \<^item> \<open>HasPendingConnection\<close>: the return value and the out-parameter of the call;
  \<^item> \<open>Accept\<close>: the accepted client socket, if any;
  \<^item> \<open>PendingData\<close>: what the successive calls of \<^verbatim>\<open>Recv\<close> return while
    \<^verbatim>\<open>HasPendingData\<close> holds; the empty string stands for \<^verbatim>\<open>Read <= 0\<close>. The list is
    finite: the socket reports no pending data after finitely many reads;
  \<^item> \<open>GetConnectionState\<close>: the state reported once the data has been read.
\<close>

record net =
  SocketSubsystem :: bool
  Listening :: "int \<Rightarrow> sock option"
  HasPendingConnection :: "sock \<Rightarrow> bool \<times> bool"
  Accept :: "sock \<Rightarrow> sock option"
  PendingData :: "sock \<Rightarrow> string list"
  GetConnectionState :: "sock \<Rightarrow> ESocketConnectionState"

record server =
  ListenSocket :: "sock option"
  ConnectedSockets :: "sock list"
  bIsServerRunning :: bool

definition UEMCPTCPServer :: server where
  \<comment> \<open>the constructor\<close>
  "UEMCPTCPServer = \<lparr>ListenSocket = None, ConnectedSockets = [], bIsServerRunning = False\<rparr>"

text \<open>
  \<^verbatim>\<open>Port\<close> is an \<^verbatim>\<open>int32\<close>; \<^verbatim>\<open>FIPv4Endpoint(Address, Port)\<close> takes a \<^verbatim>\<open>uint16\<close>, so the
  endpoint is built on \<open>Port mod 65536\<close>. The log lines print \<^verbatim>\<open>Port\<close> itself.
\<close>

definition Endpoint_Port :: "int \<Rightarrow> int" where
  "Endpoint_Port Port = Port mod 65536"

definition Start_Internal :: "net \<Rightarrow> int \<Rightarrow> server \<Rightarrow> bool \<times> server \<times> event list" where
  "Start_Internal N Port s =
    (if bIsServerRunning s then
       (True, s, [UE_LOG Warning ''UEMCP Server already running.'' []])
     else if \<not> SocketSubsystem N then
       (False, s, [UE_LOG Error ''Failed to get Socket Subsystem'' []])
     else
       (case Listening N (Endpoint_Port Port) of
          None \<Rightarrow>
            (False, s\<lparr>ListenSocket := None\<rparr>,
             [Call_Listening (Endpoint_Port Port),
              UE_LOG Error ''Failed to create listen socket on port %d'' [ArgD Port]])
        | Some l \<Rightarrow>
            (True, s\<lparr>ListenSocket := Some l, bIsServerRunning := True\<rparr>,
             [Call_Listening (Endpoint_Port Port),
              UE_LOG Log ''UEMCP Server started, listening on port %d'' [ArgD Port]])))"

text \<open>The loop of \<^verbatim>\<open>Stop_Internal\<close> over the connected sockets.\<close>

fun Stop_Internal_for :: "net \<Rightarrow> sock list \<Rightarrow> fault + event list" where
  "Stop_Internal_for N [] = Inr []"
| "Stop_Internal_for N (Socket # rest) =
     (if \<not> SocketSubsystem N then Inl NullDereference
      else (case Stop_Internal_for N rest of
              Inl f \<Rightarrow> Inl f
            | Inr t \<Rightarrow> Inr (Call_Close Socket # Call_DestroySocket Socket # t)))"

definition Stop_Internal :: "net \<Rightarrow> server \<Rightarrow> fault + (server \<times> event list)" where
  "Stop_Internal N s =
    (if \<not> bIsServerRunning s then Inr (s, [])
     else
       (case Stop_Internal_for N (ConnectedSockets s) of
          Inl f \<Rightarrow> Inl f
        | Inr t \<Rightarrow>
       (case ListenSocket s of
          None \<Rightarrow>
            Inr (s\<lparr>ConnectedSockets := [], bIsServerRunning := False\<rparr>,
                 t @ [UE_LOG Log ''UEMCP Server stopped.'' []])
        | Some l \<Rightarrow>
            if \<not> SocketSubsystem N then Inl NullDereference
            else
              Inr (s\<lparr>ConnectedSockets := [], ListenSocket := None, bIsServerRunning := False\<rparr>,
                   t @ [Call_Close l, Call_DestroySocket l,
                        UE_LOG Log ''UEMCP Server stopped.'' []]))))"

definition HandleNewConnection :: "net \<Rightarrow> server \<Rightarrow> fault + (server \<times> event list)" where
  "HandleNewConnection N s =
    (case ListenSocket s of
       None \<Rightarrow> Inl NullDereference
     | Some l \<Rightarrow>
         if fst (HasPendingConnection N l) \<and> snd (HasPendingConnection N l) then
           (case Accept N l of
              None \<Rightarrow> Inr (s, [Call_HasPendingConnection l, Call_Accept l])
            | Some ClientSocket \<Rightarrow>
                Inr (s\<lparr>ConnectedSockets := ConnectedSockets s @ [ClientSocket]\<rparr>,
                     [Call_HasPendingConnection l, Call_Accept l,
                      UE_LOG Log ''Accepted new client connection.'' []]))
         else Inr (s, [Call_HasPendingConnection l]))"

text \<open>
  The \<^verbatim>\<open>while (ClientSocket->HasPendingData(Size))\<close> loop of \<^verbatim>\<open>HandleData\<close>, over the reads
  the socket will deliver.
\<close>

fun HandleData_while ::
  "('o, 'v, 'w) engine \<Rightarrow> sock \<Rightarrow> string list \<Rightarrow> 'w \<Rightarrow> fault + ('w \<times> event list)" where
  "HandleData_while E c [] w = Inr (w, [Call_HasPendingData c])"
| "HandleData_while E c (ReceivedString # rest) w =
     (if ReceivedString \<noteq> [] then
        (case HandleCommand E w ReceivedString of
           Inl f \<Rightarrow> Inl f
         | Inr (w1, t1) \<Rightarrow>
        (case HandleData_while E c rest w1 of
           Inl f \<Rightarrow> Inl f
         | Inr (w2, t2) \<Rightarrow>
             Inr (w2, [Call_HasPendingData c, Call_Recv c,
                       UE_LOG Log ''Received: %s'' [ArgS ReceivedString]] @ t1 @ t2)))
      else
        (case HandleData_while E c rest w of
           Inl f \<Rightarrow> Inl f
         | Inr (w2, t2) \<Rightarrow> Inr (w2, [Call_HasPendingData c, Call_Recv c] @ t2)))"

definition HandleData ::
  "('o, 'v, 'w) engine \<Rightarrow> net \<Rightarrow> sock \<Rightarrow> server \<Rightarrow> 'w \<Rightarrow> fault + (server \<times> 'w \<times> event list)" where
  "HandleData E N ClientSocket s w =
    (case HandleData_while E ClientSocket (PendingData N ClientSocket) w of
       Inl f \<Rightarrow> Inl f
     | Inr (w1, t) \<Rightarrow>
         if GetConnectionState N ClientSocket \<noteq> SCS_Connected then
           if \<not> SocketSubsystem N then Inl NullDereference
           else
             Inr (s\<lparr>ConnectedSockets := removeAll ClientSocket (ConnectedSockets s)\<rparr>, w1,
                  t @ [Call_GetConnectionState ClientSocket,
                       UE_LOG Log ''Client disconnected.'' [],
                       Call_DestroySocket ClientSocket])
         else Inr (s, w1, t @ [Call_GetConnectionState ClientSocket]))"

text \<open>
  The loop of \<^verbatim>\<open>Tick_Internal\<close>: \<^verbatim>\<open>for (int32 i = Num() - 1; i >= 0; --i)\<close>. The first
  argument is \<open>i + 1\<close>; \<^verbatim>\<open>ConnectedSockets[i]\<close> checks its index against the current length.
\<close>

fun Tick_Internal_for ::
  "('o, 'v, 'w) engine \<Rightarrow> net \<Rightarrow> nat \<Rightarrow> server \<Rightarrow> 'w \<Rightarrow> fault + (server \<times> 'w \<times> event list)" where
  "Tick_Internal_for E N 0 s w = Inr (s, w, [])"
| "Tick_Internal_for E N (Suc i) s w =
     (if \<not> i < length (ConnectedSockets s) then Inl IndexOutOfBounds
      else
        (case HandleData E N (ConnectedSockets s ! i) s w of
           Inl f \<Rightarrow> Inl f
         | Inr (s1, w1, t1) \<Rightarrow>
        (case Tick_Internal_for E N i s1 w1 of
           Inl f \<Rightarrow> Inl f
         | Inr (s2, w2, t2) \<Rightarrow> Inr (s2, w2, t1 @ t2))))"

definition Tick_Internal ::
  "('o, 'v, 'w) engine \<Rightarrow> net \<Rightarrow> server \<Rightarrow> 'w \<Rightarrow> fault + (server \<times> 'w \<times> event list)" where
  "Tick_Internal E N s w =
    (if \<not> bIsServerRunning s then Inr (s, w, [])
     else
       (case HandleNewConnection N s of
          Inl f \<Rightarrow> Inl f
        | Inr (s1, t1) \<Rightarrow>
       (case Tick_Internal_for E N (length (ConnectedSockets s1)) s1 w of
          Inl f \<Rightarrow> Inl f
        | Inr (s2, w2, t2) \<Rightarrow> Inr (s2, w2, t1 @ t2))))"

section \<open>The singleton and its static interface\<close>

text \<open>
  \<^verbatim>\<open>Instance\<close> is a \<open>server option\<close>: \<open>None\<close> before the first use and after
  \<^verbatim>\<open>Shutdown\<close>. \<^verbatim>\<open>Get\<close> constructs the object on first use; the static functions store the
  object they worked on.
\<close>

definition Get :: "server option \<Rightarrow> server" where
  "Get Instance = (case Instance of None \<Rightarrow> UEMCPTCPServer | Some s \<Rightarrow> s)"

definition Start :: "net \<Rightarrow> int \<Rightarrow> server option \<Rightarrow> bool \<times> server option \<times> event list" where
  "Start N Port Instance =
     (case Start_Internal N Port (Get Instance) of (r, s, t) \<Rightarrow> (r, Some s, t))"

definition Stop :: "net \<Rightarrow> server option \<Rightarrow> fault + (server option \<times> event list)" where
  "Stop N Instance =
     (case Stop_Internal N (Get Instance) of
        Inl f \<Rightarrow> Inl f
      | Inr (s, t) \<Rightarrow> Inr (Some s, t))"

definition Tick ::
  "('o, 'v, 'w) engine \<Rightarrow> net \<Rightarrow> server option \<Rightarrow> 'w \<Rightarrow> fault + (server option \<times> 'w \<times> event list)" where
  "Tick E N Instance w =
     (case Tick_Internal E N (Get Instance) w of
        Inl f \<Rightarrow> Inl f
      | Inr (s, w1, t) \<Rightarrow> Inr (Some s, w1, t))"

text \<open>
  \<^verbatim>\<open>Shutdown\<close> stops the instance and resets the pointer; the reset runs the destructor,
  which calls \<^verbatim>\<open>Stop_Internal\<close> once more.
\<close>

definition Shutdown :: "net \<Rightarrow> server option \<Rightarrow> fault + (server option \<times> event list)" where
  "Shutdown N Instance =
     (case Instance of
        None \<Rightarrow> Inr (None, [])
      | Some s \<Rightarrow>
          (case Stop_Internal N s of
             Inl f \<Rightarrow> Inl f
           | Inr (s1, t1) \<Rightarrow>
          (case Stop_Internal N s1 of
             Inl f \<Rightarrow> Inl f
           | Inr (s2, t2) \<Rightarrow> Inr (None, t1 @ t2))))"

text \<open>
  A run of the process: the calls the host module makes, each with the answers the socket
  layer gives during the call and, for a tick, the state of the world at that frame.
\<close>

datatype 'w call = Do_Start net int | Do_Stop net | Do_Tick net 'w | Do_Shutdown net

fun run :: "('o, 'v, 'w) engine \<Rightarrow> 'w call list \<Rightarrow> server option \<Rightarrow> fault + server option" where
  "run E [] Instance = Inr Instance"
| "run E (Do_Start N Port # cs) Instance =
     (case Start N Port Instance of (r, I1, t) \<Rightarrow> run E cs I1)"
| "run E (Do_Stop N # cs) Instance =
     (case Stop N Instance of Inl f \<Rightarrow> Inl f | Inr (I1, t) \<Rightarrow> run E cs I1)"
| "run E (Do_Tick N w # cs) Instance =
     (case Tick E N Instance w of Inl f \<Rightarrow> Inl f | Inr (I1, w1, t) \<Rightarrow> run E cs I1)"
| "run E (Do_Shutdown N # cs) Instance =
     (case Shutdown N Instance of Inl f \<Rightarrow> Inl f | Inr (I1, t) \<Rightarrow> run E cs I1)"

section \<open>Reading a trace\<close>

fun polled :: "event list \<Rightarrow> sock list" where
  \<comment> \<open>the sockets whose state was asked, one per call of \<^verbatim>\<open>HandleData\<close>, in order\<close>
  "polled [] = []"
| "polled (Call_GetConnectionState c # t) = c # polled t"
| "polled (e # t) = polled t"

fun accept_attempts :: "event list \<Rightarrow> sock list" where
  "accept_attempts [] = []"
| "accept_attempts (Call_HasPendingConnection l # t) = l # accept_attempts t"
| "accept_attempts (e # t) = accept_attempts t"

fun closed_socks :: "event list \<Rightarrow> sock list" where
  "closed_socks [] = []"
| "closed_socks (Call_Close c # t) = c # closed_socks t"
| "closed_socks (e # t) = closed_socks t"

fun destroyed_socks :: "event list \<Rightarrow> sock list" where
  "destroyed_socks [] = []"
| "destroyed_socks (Call_DestroySocket c # t) = c # destroyed_socks t"
| "destroyed_socks (e # t) = destroyed_socks t"

fun listen_calls :: "event list \<Rightarrow> int list" where
  "listen_calls [] = []"
| "listen_calls (Call_Listening p # t) = p # listen_calls t"
| "listen_calls (e # t) = listen_calls t"

fun spawn_calls :: "event list \<Rightarrow> (uworld \<times> uclass \<times> FVector \<times> FRotator) list" where
  "spawn_calls [] = []"
| "spawn_calls (Call_SpawnActor wd c l r # t) = (wd, c, l, r) # spawn_calls t"
| "spawn_calls (e # t) = spawn_calls t"

fun failure_line :: "event \<Rightarrow> bool" where
  \<comment> \<open>a log line at \<^verbatim>\<open>Error\<close> or \<^verbatim>\<open>Warning\<close> verbosity\<close>
  "failure_line (UE_LOG Error m args) = True"
| "failure_line (UE_LOG Warning m args) = True"
| "failure_line e = False"

text \<open>
  The messages of a read sequence all end in a failure line, the world being threaded
  through them as \<^verbatim>\<open>HandleData\<close> does; an empty read carries no message.
\<close>

fun all_failures :: "('o, 'v, 'w) engine \<Rightarrow> 'w \<Rightarrow> string list \<Rightarrow> bool" where
  "all_failures E w [] = True"
| "all_failures E w (m # ms) =
     (if m = [] then all_failures E w ms
      else (case HandleCommand E w m of
              Inl f \<Rightarrow> False
            | Inr (w1, t) \<Rightarrow> t \<noteq> [] \<and> failure_line (last t) \<and> all_failures E w1 ms))"

definition still_connected :: "net \<Rightarrow> sock \<Rightarrow> bool" where
  "still_connected N c = (GetConnectionState N c = SCS_Connected)"

definition handles :: "sock option \<Rightarrow> sock list" where
  "handles p = (case p of None \<Rightarrow> [] | Some l \<Rightarrow> [l])"

section \<open>An engine to run the model on\<close>

text \<open>
  JSON documents as a datatype, with typed accessors: a field is a string, an object or an
  array only if it was written as one, and \<^verbatim>\<open>AsNumber\<close> of a value that is not a number
  is zero. The reader knows the payloads used below and rejects every other text. The
  world is the list of actors spawned so far; there are two classes, of which only
  \<^verbatim>\<open>Box\<close> can be spawned.
\<close>

datatype json =
    JNull
  | JBoolean bool
  | JNumber real
  | JString string
  | JArray "json list"
  | JObject "(string \<times> json) list"

type_synonym test_world = "(uclass \<times> FVector \<times> FRotator) list"

definition spawn_msg :: "string \<Rightarrow> json list \<Rightarrow> (string \<times> json) list" where
  "spawn_msg cls loc =
     [(''intent'', JString ''spawn_actor''),
      (''parameters'', JObject [(''class'', JString cls), (''location'', JArray loc)])]"

definition test_Deserialize :: "string \<Rightarrow> (string \<times> json) list option" where
  \<open>test_Deserialize text =
    (if text = ''{"intent":"spawn_actor","parameters":{"class":"Box","location":[1,2,3]}}''
       then Some (spawn_msg ''Box'' [JNumber 1, JNumber 2, JNumber 3])
     else if text = ''{"intent":"spawn_actor","parameters":{"class":"Box","location":["a","b","c"]}}''
       then Some (spawn_msg ''Box'' [JString ''a'', JString ''b'', JString ''c''])
     else if text = ''{"intent":"spawn_actor","parameters":{"class":"Box","location":[1,2]}}''
       then Some (spawn_msg ''Box'' [JNumber 1, JNumber 2])
     else if text = ''{"intent":"spawn_actor","parameters":{"class":"Ghost","location":[1,2,3]}}''
       then Some (spawn_msg ''Ghost'' [JNumber 1, JNumber 2, JNumber 3])
     else if text = ''{"intent":"spawn_actor","parameters":{"class":"Nothing","location":[1,2,3]}}''
       then Some (spawn_msg ''Nothing'' [JNumber 1, JNumber 2, JNumber 3])
     else if text = ''{"intent":"SPAWN_ACTOR","parameters":{"class":"Box","location":[1,2,3]}}''
       then Some [(''intent'', JString ''SPAWN_ACTOR''),
                  (''parameters'', JObject [(''class'', JString ''Box''),
                     (''location'', JArray [JNumber 1, JNumber 2, JNumber 3])])]
     else if text = ''{"intent":"noop"}''
       then Some [(''intent'', JString ''noop'')]
     else if text = ''{"parameters":{}}''
       then Some [(''parameters'', JObject [])]
     else None)\<close>

definition test_engine :: "((string \<times> json) list, json, test_world) engine" where
  "test_engine =
    \<lparr>Deserialize = test_Deserialize,
     TryGetStringField = (\<lambda>obj f. case map_of obj f of Some (JString s) \<Rightarrow> Some s | _ \<Rightarrow> None),
     TryGetObjectField = (\<lambda>obj f. case map_of obj f of Some (JObject fs) \<Rightarrow> Some fs | _ \<Rightarrow> None),
     TryGetArrayField = (\<lambda>obj f. case map_of obj f of Some (JArray vs) \<Rightarrow> Some vs | _ \<Rightarrow> None),
     AsNumber = (\<lambda>v. case v of JNumber d \<Rightarrow> d | _ \<Rightarrow> 0),
     JsonType = (\<lambda>v. case v of JNull \<Rightarrow> EJson_Null | JBoolean b \<Rightarrow> EJson_Boolean
                   | JNumber d \<Rightarrow> EJson_Number | JString t \<Rightarrow> EJson_String
                   | JArray vs \<Rightarrow> EJson_Array | JObject fs \<Rightarrow> EJson_Object),
     FindObject = (\<lambda>w n. if n = ''Box'' then Some 1 else if n = ''Ghost'' then Some 2 else None),
     GEngine = (\<lambda>w. Some [Some 0]),
     SpawnActor = (\<lambda>w wd c l r. if c = 1 then (Some ''Box_0'', w @ [(c, l, r)]) else (None, w))\<rparr>"

definition no_world_engine :: "((string \<times> json) list, json, test_world) engine" where
  \<comment> \<open>the same engine while its first world context has no world\<close>
  "no_world_engine = test_engine\<lparr>GEngine := (\<lambda>w. Some [None])\<rparr>"

definition test_net :: net where
  \<comment> \<open>nothing pending, every socket connected and silent\<close>
  "test_net =
    \<lparr>SocketSubsystem = True,
     Listening = (\<lambda>p. Some 100),
     HasPendingConnection = (\<lambda>l. (True, False)),
     Accept = (\<lambda>l. None),
     PendingData = (\<lambda>c. []),
     GetConnectionState = (\<lambda>c. SCS_Connected)\<rparr>"

definition two_clients :: server where
  \<comment> \<open>a running server with two clients\<close>
  "two_clients = \<lparr>ListenSocket = Some 100, ConnectedSockets = [1, 2], bIsServerRunning = True\<rparr>"

definition drop_net :: net where
  \<comment> \<open>as \<open>test_net\<close>, but socket 2 has disconnected\<close>
  "drop_net = test_net\<lparr>GetConnectionState := (\<lambda>c. if c = 2 then SCS_NotConnected else SCS_Connected)\<rparr>"

definition noop_net :: net where
  \<comment> \<open>as \<open>test_net\<close>, but socket 1 delivers one command of unknown intent\<close>
  \<open>noop_net = test_net\<lparr>PendingData := (\<lambda>c. if c = 1 then [''{"intent":"noop"}''] else [])\<rparr>\<close>

text \<open>The relation between the two fields of the server that \<^verbatim>\<open>Tick_Internal\<close> relies on.\<close>

definition listening_invariant :: "server \<Rightarrow> bool" where
  "listening_invariant s = (bIsServerRunning s \<longrightarrow> ListenSocket s \<noteq> None)"

section \<open>Commands\<close>

lemmas test_defs =
  test_engine_def test_Deserialize_def spawn_msg_def invalid_location_def ZeroRotator_def
  FString_eq_def ToLower_def Endpoint_Port_def

lemmas net_defs = test_net_def drop_net_def noop_net_def two_clients_def

text \<open>
  The comparison of the intent disregards case: \<^verbatim>\<open>SPAWN_ACTOR\<close> is the intent \<^verbatim>\<open>spawn_actor\<close>.
\<close>

lemma intent_case_is_ignored:
  \<open>FString_eq ''SPAWN_ACTOR'' ''spawn_actor''
   \<and> HandleCommand test_engine []
        ''{"intent":"SPAWN_ACTOR","parameters":{"class":"Box","location":[1,2,3]}}''
      = Inr ([(1, (1, 2, 3), (0, 0, 0))],
             [Call_FindObject ''Box'', Call_World, Call_SpawnActor 0 1 (1, 2, 3) (0, 0, 0),
              UE_LOG Log ''Successfully spawned actor: %s'' [ArgS ''Box_0'']])\<close>
  by (simp add: HandleCommand_def test_defs Let_def)

text \<open>
  C5. \<^verbatim>\<open>spawn_actor\<close> is the only intent the code knows, and it recognises it by
  \<^verbatim>\<open>FString::operator==\<close>, that is without regard to the case of its letters. A command
  whose intent is not recognised does one thing: it logs, at \<^verbatim>\<open>Warning\<close> verbosity, a line
  that carries the intent. No class is looked up, no world is asked for, nothing is
  spawned, and the world is left as it was.
\<close>

theorem unknown_intent_fails:
  assumes "Deserialize E JsonString = Some JsonObject"
    and "TryGetStringField E JsonObject ''intent'' = Some Intent"
    and "\<not> FString_eq Intent ''spawn_actor''"
  shows "HandleCommand E w JsonString
           = Inr (w, [UE_LOG Warning ''Unknown intent: %s'' [ArgS Intent]])"
  using assms by (simp add: HandleCommand_def)

theorem unknown_intent_fails_witness:
  \<open>Deserialize test_engine ''{"intent":"noop"}'' = Some [(''intent'', JString ''noop'')]
   \<and> TryGetStringField test_engine [(''intent'', JString ''noop'')] ''intent'' = Some ''noop''
   \<and> \<not> FString_eq ''noop'' ''spawn_actor''
   \<and> HandleCommand test_engine [] ''{"intent":"noop"}''
       = Inr ([], [UE_LOG Warning ''Unknown intent: %s'' [ArgS ''noop'']])\<close>
proof -
  have a: \<open>Deserialize test_engine ''{"intent":"noop"}'' = Some [(''intent'', JString ''noop'')]\<close>
    by (simp add: test_engine_def test_Deserialize_def)
  have b: "TryGetStringField test_engine [(''intent'', JString ''noop'')] ''intent'' = Some ''noop''"
    by (simp add: test_engine_def)
  have c: "\<not> FString_eq ''noop'' ''spawn_actor''"
    by (simp add: FString_eq_def ToLower_def)
  from unknown_intent_fails [OF a b c, of "[]"] a b c show ?thesis by simp
qed

text \<open>
  C4. A payload that the JSON reader does not turn into an object is answered by the one
  \<^verbatim>\<open>Error\<close> line "Failed to parse JSON command" (the spec's \<^verbatim>\<open>MalformedJson\<close>); an object
  from which no string can be read under \<^verbatim>\<open>intent\<close> is answered by the one \<^verbatim>\<open>Error\<close> line
  "Missing 'intent' field" (the spec's \<^verbatim>\<open>MissingIntent\<close>). In both cases the code returns
  before it looks at the intent: nothing else is logged or called and the world is unchanged.
\<close>

theorem parse_failures:
  "(Deserialize E JsonString = None \<longrightarrow>
      HandleCommand E w JsonString
        = Inr (w, [UE_LOG Error ''Failed to parse JSON command: %s'' [ArgS JsonString]]))
   \<and> (\<forall>JsonObject. Deserialize E JsonString = Some JsonObject
          \<and> TryGetStringField E JsonObject ''intent'' = None \<longrightarrow>
      HandleCommand E w JsonString
        = Inr (w, [UE_LOG Error ''Missing 'intent' field in command.'' []]))"
  by (simp add: HandleCommand_def)

theorem parse_failures_witness:
  \<open>Deserialize test_engine ''not json'' = None
   \<and> HandleCommand test_engine [] ''not json''
        = Inr ([], [UE_LOG Error ''Failed to parse JSON command: %s'' [ArgS ''not json'']])
   \<and> Deserialize test_engine ''{"parameters":{}}'' = Some [(''parameters'', JObject [])]
   \<and> TryGetStringField test_engine [(''parameters'', JObject [])] ''intent'' = None
   \<and> HandleCommand test_engine [] ''{"parameters":{}}''
        = Inr ([], [UE_LOG Error ''Missing 'intent' field in command.'' []])\<close>
  using parse_failures [of test_engine "''not json''" "[]"]
        parse_failures [of test_engine \<open>''{"parameters":{}}''\<close> "[]"]
  by (simp add: test_defs)

text \<open>
  The part of C1 that the code does check: a \<^verbatim>\<open>location\<close> that is no array, or an array
  whose length is not 3, ends the command with the "Invalid 'location'" line before any
  class is looked up.
\<close>

lemma wrong_length_location:
  assumes "Deserialize E JsonString = Some JsonObject"
    and "TryGetStringField E JsonObject ''intent'' = Some Intent"
    and "FString_eq Intent ''spawn_actor''"
    and "TryGetObjectField E JsonObject ''parameters'' = Some ParametersObject"
    and "TryGetStringField E ParametersObject ''class'' = Some ClassName"
    and "TryGetArrayField E ParametersObject ''location'' = None
         \<or> (\<exists>LocationArray. TryGetArrayField E ParametersObject ''location'' = Some LocationArray
              \<and> length LocationArray \<noteq> 3)"
  shows "HandleCommand E w JsonString = Inr (w, [invalid_location])"
  using assms by (auto simp add: HandleCommand_def)

text \<open>
  C1. The elements of the array are never tested: each is passed to \<^verbatim>\<open>AsNumber\<close> and the
  command goes on. Sent a location of three strings, the code looks the class up and
  spawns an actor (here at the origin, the value \<^verbatim>\<open>AsNumber\<close> gives for a string), although
  its own error line asks for "an array of 3 numbers".
\<close>

theorem location_of_strings_is_spawned:
  \<open>HandleCommand test_engine []
      ''{"intent":"spawn_actor","parameters":{"class":"Box","location":["a","b","c"]}}''
   = Inr ([(1, (0, 0, 0), (0, 0, 0))],
          [Call_FindObject ''Box'', Call_World, Call_SpawnActor 0 1 (0, 0, 0) (0, 0, 0),
           UE_LOG Log ''Successfully spawned actor: %s'' [ArgS ''Box_0'']])\<close>
  by (simp add: HandleCommand_def test_defs Let_def)

text \<open>
  C3, as stated, fails: between the lookup of the class and the spawn the code asks the
  engine for the world of its first world context and gives up, with an \<^verbatim>\<open>Error\<close> line,
  when there is none. Here the location is numeric and the class resolves, yet
  \<^verbatim>\<open>SpawnActor\<close> is not called.
\<close>

theorem spawn_without_world_counterexample:
  \<open>TryGetArrayField no_world_engine
      [(''class'', JString ''Box''), (''location'', JArray [JNumber 1, JNumber 2, JNumber 3])]
      ''location'' = Some [JNumber 1, JNumber 2, JNumber 3]
   \<and> map (JsonType no_world_engine) [JNumber 1, JNumber 2, JNumber 3]
       = [EJson_Number, EJson_Number, EJson_Number]
   \<and> FindObject no_world_engine [] ''Box'' = Some 1
   \<and> HandleCommand no_world_engine []
        ''{"intent":"spawn_actor","parameters":{"class":"Box","location":[1,2,3]}}''
      = Inr ([], [Call_FindObject ''Box'', Call_World,
                  UE_LOG Error ''Could not get world context.'' []])
   \<and> spawn_calls [Call_FindObject ''Box'', Call_World,
                  UE_LOG Error ''Could not get world context.'' []] = []\<close>
  by (simp add: HandleCommand_def no_world_engine_def test_defs Let_def)

text \<open>
  C3, amended: take a \<^verbatim>\<open>spawn_actor\<close> command with a class name that resolves and a location
  of three numbers. When the first world context of the engine has a world, the code calls
  \<^verbatim>\<open>SpawnActor\<close> exactly once, on that world, with the resolved class, the position made of
  the numbers \<^verbatim>\<open>AsNumber\<close> reads from \<open>location[0]\<close>, \<open>location[1]\<close>, \<open>location[2]\<close>, and the
  zero rotation; the last line logged is "Successfully spawned actor" with the actor's name
  when the engine returns an actor, and the \<^verbatim>\<open>Error\<close> line "Failed to spawn actor of class"
  with the class name when it returns none. When the first world context has no world, the
  command ends with the \<^verbatim>\<open>Error\<close> line "Could not get world context.", \<^verbatim>\<open>SpawnActor\<close> is
  not called and the world is unchanged.
\<close>

theorem spawn_actor_spawns:
  assumes "Deserialize E JsonString = Some JsonObject"
    and "TryGetStringField E JsonObject ''intent'' = Some Intent"
    and "FString_eq Intent ''spawn_actor''"
    and "TryGetObjectField E JsonObject ''parameters'' = Some ParametersObject"
    and "TryGetStringField E ParametersObject ''class'' = Some ClassName"
    and "TryGetArrayField E ParametersObject ''location'' = Some [x, y, z]"
    and "JsonType E x = EJson_Number"
    and "JsonType E y = EJson_Number"
    and "JsonType E z = EJson_Number"
    and "FindObject E w ClassName = Some ActorClass"
    and "Location = (AsNumber E x, AsNumber E y, AsNumber E z)"
  shows "(GEngine E w = Some (Some World # others) \<longrightarrow>
           HandleCommand E w JsonString =
             Inr (snd (SpawnActor E w World ActorClass Location ZeroRotator),
                  [Call_FindObject ClassName, Call_World,
                   Call_SpawnActor World ActorClass Location ZeroRotator,
                   (case fst (SpawnActor E w World ActorClass Location ZeroRotator) of
                      Some NewActor \<Rightarrow>
                        UE_LOG Log ''Successfully spawned actor: %s'' [ArgS NewActor]
                    | None \<Rightarrow>
                        UE_LOG Error ''Failed to spawn actor of class: %s'' [ArgS ClassName])]))
         \<and> (GEngine E w = Some (None # others) \<longrightarrow>
           HandleCommand E w JsonString =
             Inr (w, [Call_FindObject ClassName, Call_World,
                      UE_LOG Error ''Could not get world context.'' []])
           \<and> spawn_calls [Call_FindObject ClassName, Call_World,
                          UE_LOG Error ''Could not get world context.'' []] = [])"
proof (intro conjI impI)
  assume "GEngine E w = Some (Some World # others)"
  with assms show "HandleCommand E w JsonString =
             Inr (snd (SpawnActor E w World ActorClass Location ZeroRotator),
                  [Call_FindObject ClassName, Call_World,
                   Call_SpawnActor World ActorClass Location ZeroRotator,
                   (case fst (SpawnActor E w World ActorClass Location ZeroRotator) of
                      Some NewActor \<Rightarrow>
                        UE_LOG Log ''Successfully spawned actor: %s'' [ArgS NewActor]
                    | None \<Rightarrow>
                        UE_LOG Error ''Failed to spawn actor of class: %s'' [ArgS ClassName])])"
    by (simp add: HandleCommand_def Let_def split: prod.splits option.splits)
next
  assume "GEngine E w = Some (None # others)"
  with assms show "HandleCommand E w JsonString =
             Inr (w, [Call_FindObject ClassName, Call_World,
                      UE_LOG Error ''Could not get world context.'' []])"
    by (simp add: HandleCommand_def Let_def)
next
  show "spawn_calls [Call_FindObject ClassName, Call_World,
                     UE_LOG Error ''Could not get world context.'' []] = []"
    by simp
qed

theorem spawn_actor_spawns_witness:
  \<open>HandleCommand test_engine []
      ''{"intent":"spawn_actor","parameters":{"class":"Box","location":[1,2,3]}}''
     = Inr ([(1, (1, 2, 3), ZeroRotator)],
            [Call_FindObject ''Box'', Call_World, Call_SpawnActor 0 1 (1, 2, 3) ZeroRotator,
             UE_LOG Log ''Successfully spawned actor: %s'' [ArgS ''Box_0'']])
   \<and> HandleCommand test_engine []
      ''{"intent":"spawn_actor","parameters":{"class":"Ghost","location":[1,2,3]}}''
     = Inr ([],
            [Call_FindObject ''Ghost'', Call_World, Call_SpawnActor 0 2 (1, 2, 3) ZeroRotator,
             UE_LOG Error ''Failed to spawn actor of class: %s'' [ArgS ''Ghost'']])
   \<and> HandleCommand no_world_engine []
      ''{"intent":"spawn_actor","parameters":{"class":"Ghost","location":[1,2,3]}}''
     = Inr ([],
            [Call_FindObject ''Ghost'', Call_World,
             UE_LOG Error ''Could not get world context.'' []])\<close>
proof -
  let ?loc = "[JNumber 1, JNumber 2, JNumber 3]"
  let ?params = "\<lambda>c. [(''class'', JString c), (''location'', JArray ?loc)]"
  have box: \<open>Deserialize test_engine
      ''{"intent":"spawn_actor","parameters":{"class":"Box","location":[1,2,3]}}''
      = Some (spawn_msg ''Box'' ?loc)\<close>
    by (simp add: test_engine_def test_Deserialize_def)
  have ghost: \<open>Deserialize test_engine
      ''{"intent":"spawn_actor","parameters":{"class":"Ghost","location":[1,2,3]}}''
      = Some (spawn_msg ''Ghost'' ?loc)\<close>
    by (simp add: test_engine_def test_Deserialize_def)
  have intent: "TryGetStringField test_engine (spawn_msg c ?loc) ''intent'' = Some ''spawn_actor''"
    for c
    by (simp add: test_engine_def spawn_msg_def)
  have same: "FString_eq ''spawn_actor'' ''spawn_actor''"
    by (simp add: FString_eq_def)
  have params: "TryGetObjectField test_engine (spawn_msg c ?loc) ''parameters'' = Some (?params c)"
    for c
    by (simp add: test_engine_def spawn_msg_def)
  have cls: "TryGetStringField test_engine (?params c) ''class'' = Some c" for c
    by (simp add: test_engine_def)
  have loc: "TryGetArrayField test_engine (?params c) ''location'' = Some ?loc" for c
    by (simp add: test_engine_def)
  have num: "JsonType test_engine (JNumber d) = EJson_Number" for d
    by (simp add: test_engine_def)
  have fbox: "FindObject test_engine [] ''Box'' = Some 1"
    and fghost: "FindObject test_engine [] ''Ghost'' = Some 2"
    by (simp_all add: test_engine_def)
  have pos: "(1, 2, 3) = (AsNumber test_engine (JNumber 1), AsNumber test_engine (JNumber 2),
       AsNumber test_engine (JNumber 3))"
    by (simp add: test_engine_def)
  have world: "GEngine test_engine [] = Some (Some 0 # [])"
    by (simp add: test_engine_def)
  have no_world: "GEngine no_world_engine [] = Some (None # [])"
    by (simp add: no_world_engine_def test_engine_def)
  have nghost: \<open>Deserialize no_world_engine
      ''{"intent":"spawn_actor","parameters":{"class":"Ghost","location":[1,2,3]}}''
      = Some (spawn_msg ''Ghost'' ?loc)\<close>
    and nintent: "TryGetStringField no_world_engine (spawn_msg ''Ghost'' ?loc) ''intent''
      = Some ''spawn_actor''"
    and nparams: "TryGetObjectField no_world_engine (spawn_msg ''Ghost'' ?loc) ''parameters''
      = Some (?params ''Ghost'')"
    and ncls: "TryGetStringField no_world_engine (?params ''Ghost'') ''class'' = Some ''Ghost''"
    and nloc: "TryGetArrayField no_world_engine (?params ''Ghost'') ''location'' = Some ?loc"
    and nnum: "JsonType no_world_engine (JNumber d) = EJson_Number"
    and nfghost: "FindObject no_world_engine [] ''Ghost'' = Some 2"
    and npos: "(1, 2, 3) = (AsNumber no_world_engine (JNumber 1),
       AsNumber no_world_engine (JNumber 2), AsNumber no_world_engine (JNumber 3))" for d
    using ghost intent [of "''Ghost''"] params [of "''Ghost''"] cls [of "''Ghost''"]
      loc [of "''Ghost''"] num [of d] fghost pos
    by (simp_all add: no_world_engine_def)
  from spawn_actor_spawns
         [OF box intent same params cls loc num num num fbox pos,
          where World = 0 and others = "[]"]
       spawn_actor_spawns
         [OF ghost intent same params cls loc num num num fghost pos,
          where World = 0 and others = "[]"]
       spawn_actor_spawns
         [OF nghost nintent same nparams ncls nloc nnum nnum nnum nfghost npos,
          where World = 0 and others = "[]"]
       world no_world
  show ?thesis by (simp add: test_engine_def)
qed

text \<open>
  Every command that returns either reports a spawned actor or ends in a line at \<^verbatim>\<open>Error\<close>
  or \<^verbatim>\<open>Warning\<close> verbosity.
\<close>

lemma HandleCommand_outcome:
  assumes "HandleCommand E w m = Inr (w1, t)"
  shows "t \<noteq> [] \<and> (failure_line (last t)
           \<or> (\<exists>a. last t = UE_LOG Log ''Successfully spawned actor: %s'' [ArgS a]))"
  using assms unfolding HandleCommand_def Let_def invalid_location_def
  by (simp split: option.splits if_splits list.splits prod.splits) auto

text \<open>
  The message-level failures: malformed JSON, no intent, an unknown intent, a parameter
  that fails validation, a class that does not resolve, a spawn that the engine refuses.
  Each ends the command in a failure line.
\<close>

lemma message_level_failures:
  assumes "m \<noteq> []"
    and "Deserialize E m = None
     \<or> (\<exists>obj. Deserialize E m = Some obj \<and> TryGetStringField E obj ''intent'' = None)
     \<or> (\<exists>obj i. Deserialize E m = Some obj \<and> TryGetStringField E obj ''intent'' = Some i
           \<and> \<not> FString_eq i ''spawn_actor'')
     \<or> (\<exists>obj i. Deserialize E m = Some obj
           \<and> TryGetStringField E obj ''intent'' = Some i \<and> FString_eq i ''spawn_actor''
           \<and> TryGetObjectField E obj ''parameters'' = None)
     \<or> (\<exists>obj i ps. Deserialize E m = Some obj
           \<and> TryGetStringField E obj ''intent'' = Some i \<and> FString_eq i ''spawn_actor''
           \<and> TryGetObjectField E obj ''parameters'' = Some ps
           \<and> (TryGetStringField E ps ''class'' = None
                \<or> (\<exists>cn. TryGetStringField E ps ''class'' = Some cn
                      \<and> (TryGetArrayField E ps ''location'' = None
                           \<or> (\<exists>la. TryGetArrayField E ps ''location'' = Some la
                                 \<and> length la \<noteq> 3)))))
     \<or> (\<exists>obj i ps cn x y z. Deserialize E m = Some obj
           \<and> TryGetStringField E obj ''intent'' = Some i \<and> FString_eq i ''spawn_actor''
           \<and> TryGetObjectField E obj ''parameters'' = Some ps
           \<and> TryGetStringField E ps ''class'' = Some cn
           \<and> TryGetArrayField E ps ''location'' = Some [x, y, z]
           \<and> (FindObject E w cn = None
                \<or> (\<exists>ac wd rest. FindObject E w cn = Some ac
                      \<and> GEngine E w = Some (Some wd # rest)
                      \<and> fst (SpawnActor E w wd ac (AsNumber E x, AsNumber E y, AsNumber E z)
                               ZeroRotator) = None)))"
  shows "all_failures E w [m]"
  using assms(2)
proof (elim disjE exE conjE)
  assume "Deserialize E m = None"
  with assms(1) show ?thesis by (simp add: HandleCommand_def)
next
  fix obj
  assume "Deserialize E m = Some obj" "TryGetStringField E obj ''intent'' = None"
  with assms(1) show ?thesis by (simp add: HandleCommand_def)
next
  fix obj i
  assume "Deserialize E m = Some obj" "TryGetStringField E obj ''intent'' = Some i"
    "\<not> FString_eq i ''spawn_actor''"
  with assms(1) show ?thesis by (simp add: HandleCommand_def)
next
  fix obj i
  assume "Deserialize E m = Some obj" "TryGetStringField E obj ''intent'' = Some i"
    "FString_eq i ''spawn_actor''"
    "TryGetObjectField E obj ''parameters'' = None"
  with assms(1) show ?thesis by (simp add: HandleCommand_def)
next
  fix obj i ps
  assume "Deserialize E m = Some obj" "TryGetStringField E obj ''intent'' = Some i"
    "FString_eq i ''spawn_actor''"
    "TryGetObjectField E obj ''parameters'' = Some ps" "TryGetStringField E ps ''class'' = None"
  with assms(1) show ?thesis by (simp add: HandleCommand_def)
next
  fix obj i ps cn
  assume "Deserialize E m = Some obj" "TryGetStringField E obj ''intent'' = Some i"
    "FString_eq i ''spawn_actor''"
    "TryGetObjectField E obj ''parameters'' = Some ps" "TryGetStringField E ps ''class'' = Some cn"
    "TryGetArrayField E ps ''location'' = None"
  with assms(1) show ?thesis by (simp add: HandleCommand_def invalid_location_def)
next
  fix obj i ps cn la
  assume "Deserialize E m = Some obj" "TryGetStringField E obj ''intent'' = Some i"
    "FString_eq i ''spawn_actor''"
    "TryGetObjectField E obj ''parameters'' = Some ps" "TryGetStringField E ps ''class'' = Some cn"
    "TryGetArrayField E ps ''location'' = Some la" "length la \<noteq> 3"
  with assms(1) show ?thesis by (simp add: HandleCommand_def invalid_location_def)
next
  fix obj i ps cn x y z
  assume "Deserialize E m = Some obj" "TryGetStringField E obj ''intent'' = Some i"
    "FString_eq i ''spawn_actor''"
    "TryGetObjectField E obj ''parameters'' = Some ps" "TryGetStringField E ps ''class'' = Some cn"
    "TryGetArrayField E ps ''location'' = Some [x, y, z]" "FindObject E w cn = None"
  with assms(1) show ?thesis by (simp add: HandleCommand_def)
next
  fix obj i ps cn x y z ac wd rest
  assume "Deserialize E m = Some obj" "TryGetStringField E obj ''intent'' = Some i"
    "FString_eq i ''spawn_actor''"
    "TryGetObjectField E obj ''parameters'' = Some ps" "TryGetStringField E ps ''class'' = Some cn"
    "TryGetArrayField E ps ''location'' = Some [x, y, z]" "FindObject E w cn = Some ac"
    "GEngine E w = Some (Some wd # rest)"
    "fst (SpawnActor E w wd ac (AsNumber E x, AsNumber E y, AsNumber E z) ZeroRotator) = None"
  with assms(1) show ?thesis
    by (cases "SpawnActor E w wd ac (AsNumber E x, AsNumber E y, AsNumber E z) ZeroRotator")
       (simp add: HandleCommand_def Let_def)
qed

section \<open>Start and Stop\<close>

lemma polled_append: "polled (a @ b) = polled a @ polled b"
  by (induction a rule: polled.induct) simp_all

lemma destroyed_append: "destroyed_socks (a @ b) = destroyed_socks a @ destroyed_socks b"
  by (induction a rule: destroyed_socks.induct) simp_all

lemma closed_append: "closed_socks (a @ b) = closed_socks a @ closed_socks b"
  by (induction a rule: closed_socks.induct) simp_all

lemma accept_attempts_append: "accept_attempts (a @ b) = accept_attempts a @ accept_attempts b"
  by (induction a rule: accept_attempts.induct) simp_all

lemma listen_calls_append: "listen_calls (a @ b) = listen_calls a @ listen_calls b"
  by (induction a rule: listen_calls.induct) simp_all

lemma Start_Internal_success_running:
  "Start_Internal N Port s = (True, s1, t) \<Longrightarrow> bIsServerRunning s1"
  by (auto simp add: Start_Internal_def split: if_splits option.splits)

text \<open>
  C6. On a server that is already running, \<^verbatim>\<open>Start\<close> returns true, logs one warning, asks
  for no listening socket and leaves the server object as it was: the listening socket and
  the connection list are the same. Hence a start that follows a successful start returns
  true and changes nothing.
\<close>

theorem start_is_idempotent:
  "(bIsServerRunning s \<longrightarrow>
      Start_Internal N Port s = (True, s, [UE_LOG Warning ''UEMCP Server already running.'' []])
      \<and> Start N Port (Some s) = (True, Some s, [UE_LOG Warning ''UEMCP Server already running.'' []])
      \<and> listen_calls (snd (snd (Start_Internal N Port s))) = [])
   \<and> (\<forall>s1 t1. Start_Internal N Port s = (True, s1, t1) \<longrightarrow>
         Start_Internal N2 Port2 s1
           = (True, s1, [UE_LOG Warning ''UEMCP Server already running.'' []]))"
proof -
  have a: "Start_Internal M P x = (True, x, [UE_LOG Warning ''UEMCP Server already running.'' []])"
    if "bIsServerRunning x" for M P x
    using that by (simp add: Start_Internal_def)
  show ?thesis
    using a Start_Internal_success_running
    by (auto simp add: Start_def Get_def)
qed

theorem start_is_idempotent_witness:
  "bIsServerRunning two_clients
   \<and> Start_Internal test_net 7000 two_clients
       = (True, two_clients, [UE_LOG Warning ''UEMCP Server already running.'' []])
   \<and> Start_Internal test_net 7000 UEMCPTCPServer
       = (True, \<lparr>ListenSocket = Some 100, ConnectedSockets = [], bIsServerRunning = True\<rparr>,
          [Call_Listening 7000,
           UE_LOG Log ''UEMCP Server started, listening on port %d'' [ArgD 7000]])
   \<and> Start_Internal test_net 7000
        \<lparr>ListenSocket = Some 100, ConnectedSockets = [], bIsServerRunning = True\<rparr>
       = (True, \<lparr>ListenSocket = Some 100, ConnectedSockets = [], bIsServerRunning = True\<rparr>,
          [UE_LOG Warning ''UEMCP Server already running.'' []])"
proof -
  have a: "bIsServerRunning two_clients" by (simp add: two_clients_def)
  have b: "Start_Internal test_net 7000 UEMCPTCPServer
       = (True, \<lparr>ListenSocket = Some 100, ConnectedSockets = [], bIsServerRunning = True\<rparr>,
          [Call_Listening 7000,
           UE_LOG Log ''UEMCP Server started, listening on port %d'' [ArgD 7000]])"
    by (simp add: Start_Internal_def Endpoint_Port_def UEMCPTCPServer_def test_net_def)
  from start_is_idempotent [of two_clients test_net 7000 test_net 7000]
       start_is_idempotent [of UEMCPTCPServer test_net 7000 test_net 7000] a b
  show ?thesis by simp
qed

lemma Stop_Internal_for_ok:
  "SocketSubsystem N \<Longrightarrow>
     \<exists>t. Stop_Internal_for N cs = Inr t \<and> closed_socks t = cs \<and> destroyed_socks t = cs"
  by (induction cs) auto

text \<open>
  C7. On a server that is not running, \<^verbatim>\<open>Stop\<close> does nothing. On a running server (the
  socket subsystem being there to destroy the sockets) it closes and destroys the connected
  sockets and the listening socket, one call per entry and in that order, and leaves the
  server not running, without listening socket and with an empty connection list; a second
  \<^verbatim>\<open>Stop\<close> then does nothing at all. So when the server holds no handle twice, the two calls
  together close no handle twice.
\<close>

theorem stop_is_idempotent:
  "(\<not> bIsServerRunning s \<longrightarrow> Stop_Internal N s = Inr (s, []))
   \<and> (bIsServerRunning s \<and> SocketSubsystem N \<longrightarrow>
        (\<exists>s1 t1. Stop_Internal N s = Inr (s1, t1)
           \<and> s1 = \<lparr>ListenSocket = None, ConnectedSockets = [], bIsServerRunning = False\<rparr>
           \<and> closed_socks t1 = ConnectedSockets s @ handles (ListenSocket s)
           \<and> destroyed_socks t1 = ConnectedSockets s @ handles (ListenSocket s)
           \<and> (distinct (ConnectedSockets s @ handles (ListenSocket s)) \<longrightarrow>
                distinct (closed_socks t1) \<and> distinct (destroyed_socks t1))
           \<and> Stop_Internal N2 s1 = Inr (s1, [])))"
proof (intro conjI impI)
  assume "\<not> bIsServerRunning s"
  then show "Stop_Internal N s = Inr (s, [])" by (simp add: Stop_Internal_def)
next
  assume a: "bIsServerRunning s \<and> SocketSubsystem N"
  then obtain t where
    t: "Stop_Internal_for N (ConnectedSockets s) = Inr t"
      "closed_socks t = ConnectedSockets s" "destroyed_socks t = ConnectedSockets s"
    using Stop_Internal_for_ok [of N "ConnectedSockets s"] by blast
  let ?s1 = "\<lparr>ListenSocket = None, ConnectedSockets = [], bIsServerRunning = False\<rparr>"
  have again: "Stop_Internal N2 ?s1 = Inr (?s1, [])"
    by (simp add: Stop_Internal_def)
  show "\<exists>s1 t1. Stop_Internal N s = Inr (s1, t1)
           \<and> s1 = ?s1
           \<and> closed_socks t1 = ConnectedSockets s @ handles (ListenSocket s)
           \<and> destroyed_socks t1 = ConnectedSockets s @ handles (ListenSocket s)
           \<and> (distinct (ConnectedSockets s @ handles (ListenSocket s)) \<longrightarrow>
                distinct (closed_socks t1) \<and> distinct (destroyed_socks t1))
           \<and> Stop_Internal N2 s1 = Inr (s1, [])"
  proof (cases "ListenSocket s")
    case None
    with a t again show ?thesis
      by (simp add: Stop_Internal_def handles_def closed_append destroyed_append)
  next
    case (Some l)
    with a t again show ?thesis
      by (simp add: Stop_Internal_def handles_def closed_append destroyed_append)
  qed
qed

theorem stop_is_idempotent_witness:
  "\<not> bIsServerRunning UEMCPTCPServer
   \<and> Stop_Internal test_net UEMCPTCPServer = Inr (UEMCPTCPServer, [])
   \<and> bIsServerRunning two_clients \<and> SocketSubsystem test_net
   \<and> distinct (ConnectedSockets two_clients @ handles (ListenSocket two_clients))
   \<and> (\<exists>t1. Stop_Internal test_net two_clients = Inr (UEMCPTCPServer, t1)
          \<and> closed_socks t1 = [1, 2, 100]
          \<and> distinct (closed_socks t1)
          \<and> Stop_Internal test_net UEMCPTCPServer = Inr (UEMCPTCPServer, []))
   \<and> Stop_Internal test_net two_clients
       = Inr (UEMCPTCPServer,
              [Call_Close 1, Call_DestroySocket 1, Call_Close 2, Call_DestroySocket 2,
               Call_Close 100, Call_DestroySocket 100, UE_LOG Log ''UEMCP Server stopped.'' []])"
proof -
  have a: "\<not> bIsServerRunning UEMCPTCPServer" by (simp add: UEMCPTCPServer_def)
  have b: "bIsServerRunning two_clients \<and> SocketSubsystem test_net"
    by (simp add: net_defs)
  have c: "distinct (ConnectedSockets two_clients @ handles (ListenSocket two_clients))"
    and d: "ConnectedSockets two_clients @ handles (ListenSocket two_clients) = [1, 2, 100]"
    by (simp_all add: two_clients_def handles_def)
  have e: "Stop_Internal test_net two_clients
       = Inr (UEMCPTCPServer,
              [Call_Close 1, Call_DestroySocket 1, Call_Close 2, Call_DestroySocket 2,
               Call_Close 100, Call_DestroySocket 100, UE_LOG Log ''UEMCP Server stopped.'' []])"
    by (simp add: Stop_Internal_def UEMCPTCPServer_def net_defs)
  from stop_is_idempotent [of UEMCPTCPServer test_net test_net]
       stop_is_idempotent [of two_clients test_net test_net] a b c d e
  show ?thesis by (auto simp add: UEMCPTCPServer_def)
qed

section \<open>Tick\<close>

lemma HandleCommand_sockets:
  assumes "HandleCommand E w m = Inr (w1, t)"
  shows "polled t = [] \<and> destroyed_socks t = [] \<and> closed_socks t = [] \<and> accept_attempts t = []"
  using assms
  by (auto simp add: HandleCommand_def Let_def invalid_location_def
           split: option.splits if_splits list.splits prod.splits)

lemma HandleData_while_sockets:
  "HandleData_while E c ms w = Inr (w1, t) \<Longrightarrow>
     polled t = [] \<and> destroyed_socks t = [] \<and> closed_socks t = [] \<and> accept_attempts t = []"
proof (induction ms arbitrary: w w1 t)
  case Nil
  then show ?case by auto
next
  case (Cons m ms)
  show ?case
  proof (cases "m = []")
    case True
    with Cons.prems obtain t2 where
      r: "HandleData_while E c ms w = Inr (w1, t2)" and
      t: "t = [Call_HasPendingData c, Call_Recv c] @ t2"
      by (auto split: sum.splits)
    from Cons.IH [OF r] t show ?thesis by simp
  next
    case False
    with Cons.prems obtain wa ta t2 where
      h: "HandleCommand E w m = Inr (wa, ta)" and
      r: "HandleData_while E c ms wa = Inr (w1, t2)" and
      t: "t = [Call_HasPendingData c, Call_Recv c, UE_LOG Log ''Received: %s'' [ArgS m]] @ ta @ t2"
      by (auto split: sum.splits)
    from Cons.IH [OF r] HandleCommand_sockets [OF h] t show ?thesis
      by (simp add: polled_append destroyed_append closed_append accept_attempts_append)
  qed
qed

lemma HandleData_effect:
  assumes "HandleData E N c s w = Inr (s1, w1, t)"
  shows "s1 = (if still_connected N c then s
               else s\<lparr>ConnectedSockets := removeAll c (ConnectedSockets s)\<rparr>)
         \<and> polled t = [c]
         \<and> destroyed_socks t = (if still_connected N c then [] else [c])
         \<and> closed_socks t = [] \<and> accept_attempts t = []"
proof -
  from assms obtain wa ta where
    r: "HandleData_while E c (PendingData N c) w = Inr (wa, ta)"
    by (auto simp add: HandleData_def split: sum.splits)
  from HandleData_while_sockets [OF r] assms r show ?thesis
    by (auto simp add: HandleData_def still_connected_def polled_append destroyed_append
          closed_append accept_attempts_append split: if_splits)
qed

lemma removeAll_nth_distinct:
  "distinct xs \<Longrightarrow> i < length xs \<Longrightarrow> removeAll (xs ! i) xs = take i xs @ drop (Suc i) xs"
proof (induction xs arbitrary: i)
  case Nil
  then show ?case by simp
next
  case (Cons x xs)
  show ?case
  proof (cases i)
    case 0
    with Cons.prems show ?thesis by simp
  next
    case (Suc j)
    with Cons.prems have "xs ! j \<noteq> x" by auto
    with Cons Suc show ?thesis by simp
  qed
qed


lemma Tick_Internal_for_effect:
  "Tick_Internal_for E N i s w = Inr (s1, w1, t) \<Longrightarrow> distinct (ConnectedSockets s) \<Longrightarrow>
   i \<le> length (ConnectedSockets s) \<Longrightarrow>
     ConnectedSockets s1 = filter (still_connected N) (take i (ConnectedSockets s)) @ drop i (ConnectedSockets s)
     \<and> ListenSocket s1 = ListenSocket s
     \<and> bIsServerRunning s1 = bIsServerRunning s
     \<and> polled t = rev (take i (ConnectedSockets s))
     \<and> destroyed_socks t = rev (filter (\<lambda>c. \<not> still_connected N c) (take i (ConnectedSockets s)))
     \<and> closed_socks t = [] \<and> accept_attempts t = []"
proof (induction i arbitrary: s w s1 w1 t)
  case 0
  then show ?case by simp
next
  case (Suc i)
  let ?cs = "ConnectedSockets s"
  let ?c = "?cs ! i"
  from Suc.prems have i: "i < length ?cs" by simp
  with Suc.prems obtain sa wa ta t2 where
    h: "HandleData E N ?c s w = Inr (sa, wa, ta)" and
    r: "Tick_Internal_for E N i sa wa = Inr (s1, w1, t2)" and
    t: "t = ta @ t2"
    by (auto split: sum.splits)
  note eff = HandleData_effect [OF h]
  have take_Suc: "take (Suc i) ?cs = take i ?cs @ [?c]"
    using i by (simp add: take_Suc_conv_app_nth)
  show ?case
  proof (cases "still_connected N ?c")
    case True
    with eff have sa: "sa = s" by simp
    from Suc.IH [OF r [unfolded sa]] Suc.prems(2) i
    have ih: "ConnectedSockets s1 = filter (still_connected N) (take i ?cs) @ drop i ?cs
        \<and> ListenSocket s1 = ListenSocket s \<and> bIsServerRunning s1 = bIsServerRunning s
        \<and> polled t2 = rev (take i ?cs)
        \<and> destroyed_socks t2 = rev (filter (\<lambda>c. \<not> still_connected N c) (take i ?cs))
        \<and> closed_socks t2 = [] \<and> accept_attempts t2 = []"
      by simp
    have "drop i ?cs = ?c # drop (Suc i) ?cs"
      using i by (simp add: Cons_nth_drop_Suc)
    with ih eff t True take_Suc show ?thesis
      by (simp add: polled_append destroyed_append closed_append accept_attempts_append)
  next
    case False
    with eff have sa: "sa = s\<lparr>ConnectedSockets := take i ?cs @ drop (Suc i) ?cs\<rparr>"
      using removeAll_nth_distinct [OF Suc.prems(2) i] by simp
    have "distinct (removeAll ?c ?cs)"
      using Suc.prems(2) by (rule distinct_removeAll)
    then have d: "distinct (ConnectedSockets sa)"
      using removeAll_nth_distinct [OF Suc.prems(2) i] sa by simp
    have l: "i \<le> length (ConnectedSockets sa)" using i sa by simp
    from Suc.IH [OF r d l] sa i
    have ih: "ConnectedSockets s1 = filter (still_connected N) (take i ?cs) @ drop (Suc i) ?cs
        \<and> ListenSocket s1 = ListenSocket s \<and> bIsServerRunning s1 = bIsServerRunning s
        \<and> polled t2 = rev (take i ?cs)
        \<and> destroyed_socks t2 = rev (filter (\<lambda>c. \<not> still_connected N c) (take i ?cs))
        \<and> closed_socks t2 = [] \<and> accept_attempts t2 = []"
      by simp
    with eff t False take_Suc show ?thesis
      by (simp add: polled_append destroyed_append closed_append accept_attempts_append)
  qed
qed

lemma HandleNewConnection_effect:
  assumes "HandleNewConnection N s = Inr (s1, t1)"
  shows "ListenSocket s1 = ListenSocket s \<and> bIsServerRunning s1 = bIsServerRunning s
         \<and> (ConnectedSockets s1 = ConnectedSockets s
              \<or> (\<exists>c. ConnectedSockets s1 = ConnectedSockets s @ [c]))
         \<and> accept_attempts t1 = handles (ListenSocket s)
         \<and> polled t1 = [] \<and> destroyed_socks t1 = [] \<and> closed_socks t1 = []
         \<and> (\<exists>l rest. ListenSocket s = Some l \<and> t1 = Call_HasPendingConnection l # rest)"
  using assms
  by (auto simp add: HandleNewConnection_def handles_def split: option.splits if_splits)

lemma HandleCommand_returns:
  assumes "\<And>w. GEngine E w \<noteq> None \<and> GEngine E w \<noteq> Some []"
  shows "\<exists>w1 t. HandleCommand E w m = Inr (w1, t)"
proof -
  from assms [of w] obtain c cs where "GEngine E w = Some (c # cs)"
    by (cases "GEngine E w") (auto simp add: neq_Nil_conv)
  then show ?thesis
    by (cases c) (auto simp add: HandleCommand_def Let_def split: option.splits prod.splits)
qed

lemma HandleData_while_returns:
  assumes "\<And>w. GEngine E w \<noteq> None \<and> GEngine E w \<noteq> Some []"
  shows "\<exists>w1 t. HandleData_while E c ms w = Inr (w1, t)"
proof (induction ms arbitrary: w)
  case Nil
  show ?case by simp
next
  case (Cons m ms)
  obtain wa ta where h: "HandleCommand E w m = Inr (wa, ta)"
    using HandleCommand_returns [OF assms] by blast
  from Cons [of wa] Cons [of w] h show ?case
    by (cases "m = []") auto
qed

lemma HandleData_returns:
  assumes "\<And>w. GEngine E w \<noteq> None \<and> GEngine E w \<noteq> Some []" and "SocketSubsystem N"
  shows "\<exists>s1 w1 t. HandleData E N c s w = Inr (s1, w1, t)"
proof -
  obtain wa ta where "HandleData_while E c (PendingData N c) w = Inr (wa, ta)"
    using HandleData_while_returns [OF assms(1)] by blast
  with assms(2) show ?thesis by (simp add: HandleData_def)
qed

lemma Tick_Internal_for_returns:
  assumes "\<And>w. GEngine E w \<noteq> None \<and> GEngine E w \<noteq> Some []" and "SocketSubsystem N"
  shows "distinct (ConnectedSockets s) \<Longrightarrow> i \<le> length (ConnectedSockets s) \<Longrightarrow>
         \<exists>s1 w1 t. Tick_Internal_for E N i s w = Inr (s1, w1, t)"
proof (induction i arbitrary: s w)
  case 0
  show ?case by simp
next
  case (Suc i)
  let ?cs = "ConnectedSockets s"
  from Suc.prems have i: "i < length ?cs" by simp
  obtain sa wa ta where h: "HandleData E N (?cs ! i) s w = Inr (sa, wa, ta)"
    using HandleData_returns [OF assms] by blast
  from HandleData_effect [OF h]
  have sa: "sa = s \<or> sa = s\<lparr>ConnectedSockets := removeAll (?cs ! i) ?cs\<rparr>"
    by (simp split: if_splits)
  have "distinct (removeAll (?cs ! i) ?cs)"
    using Suc.prems(1) by (rule distinct_removeAll)
  with sa Suc.prems(1) have d: "distinct (ConnectedSockets sa)" by auto
  have "i \<le> length (removeAll (?cs ! i) ?cs)"
    using removeAll_nth_distinct [OF Suc.prems(1) i] i by simp
  with sa i have l: "i \<le> length (ConnectedSockets sa)" by auto
  from Suc.IH [OF d l, of wa] obtain s1 w1 t2 where
    "Tick_Internal_for E N i sa wa = Inr (s1, w1, t2)" by blast
  with h i show ?case by simp
qed

text \<open>
  The connection list stays free of duplicates as long as the socket layer hands out, on
  accept, a socket that is not in the list.
\<close>

lemma Tick_Internal_distinct:
  assumes "distinct (ConnectedSockets s)"
    and "\<And>l c. ListenSocket s = Some l \<Longrightarrow> Accept N l = Some c \<Longrightarrow> c \<notin> set (ConnectedSockets s)"
    and "Tick_Internal E N s w = Inr (s2, w2, t)"
  shows "distinct (ConnectedSockets s2)"
proof (cases "bIsServerRunning s")
  case False
  with assms(1,3) show ?thesis by (simp add: Tick_Internal_def)
next
  case True
  with assms(3) obtain s1 t1 t2 where
    h: "HandleNewConnection N s = Inr (s1, t1)" and
    r: "Tick_Internal_for E N (length (ConnectedSockets s1)) s1 w = Inr (s2, w2, t2)"
    by (auto simp add: Tick_Internal_def split: sum.splits)
  from h assms(1,2) have d: "distinct (ConnectedSockets s1)"
    by (auto simp add: HandleNewConnection_def split: option.splits if_splits)
  from Tick_Internal_for_effect [OF r d] show ?thesis
    using d by simp
qed

lemma count_list_distinct:
  "distinct xs \<Longrightarrow> count_list xs x = (if x \<in> set xs then 1 else 0)"
  by (induction xs) auto

text \<open>
  C2, as stated, fails: the loop of \<^verbatim>\<open>Tick_Internal\<close> runs from the last index down to 0, so
  that a socket can be removed while the list is walked. With the clients 1 and 2 in the
  list, in this order, client 2 is polled first.
\<close>

theorem tick_order_counterexample:
  "Tick_Internal test_engine test_net two_clients []
     = Inr (two_clients, [],
            [Call_HasPendingConnection 100,
             Call_HasPendingData 2, Call_GetConnectionState 2,
             Call_HasPendingData 1, Call_GetConnectionState 1])
   \<and> polled [Call_HasPendingConnection 100,
             Call_HasPendingData 2, Call_GetConnectionState 2,
             Call_HasPendingData 1, Call_GetConnectionState 1] = [2, 1]
   \<and> ConnectedSockets two_clients = [1, 2]"
  by (simp add: Tick_Internal_def HandleNewConnection_def HandleData_def net_defs)

text \<open>
  C2, amended: on a running server \<^verbatim>\<open>Tick\<close> makes one accept attempt on the listening socket
  and then calls \<^verbatim>\<open>HandleData\<close> once on every connection the list holds after the accept,
  the last element of the list first and the first element last. (The tick returns when
  the list holds no socket twice, the socket subsystem is there and the engine has a world
  context.)
\<close>

theorem tick_polls_last_connection_first:
  assumes "bIsServerRunning s"
    and "HandleNewConnection N s = Inr (s1, t1)"
    and "distinct (ConnectedSockets s1)"
    and "SocketSubsystem N"
    and "\<And>w. GEngine E w \<noteq> None \<and> GEngine E w \<noteq> Some []"
  shows "\<exists>s2 w2 t2 l. Tick_Internal E N s w = Inr (s2, w2, t1 @ t2)
           \<and> ListenSocket s = Some l
           \<and> accept_attempts t1 = [l]
           \<and> polled t1 = []
           \<and> accept_attempts t2 = []
           \<and> polled t2 = rev (ConnectedSockets s1)"
proof -
  obtain s2 w2 t2 where
    r: "Tick_Internal_for E N (length (ConnectedSockets s1)) s1 w = Inr (s2, w2, t2)"
    using Tick_Internal_for_returns [OF assms(5) assms(4) assms(3), of "length (ConnectedSockets s1)" w]
    by blast
  from Tick_Internal_for_effect [OF r assms(3)]
  have "polled t2 = rev (ConnectedSockets s1)" and "accept_attempts t2 = []" by simp_all
  moreover have "Tick_Internal E N s w = Inr (s2, w2, t1 @ t2)"
    using assms(1,2) r by (simp add: Tick_Internal_def)
  moreover obtain l where "ListenSocket s = Some l" and "accept_attempts t1 = [l]"
    and "polled t1 = []"
    using HandleNewConnection_effect [OF assms(2)] by (auto simp add: handles_def)
  ultimately show ?thesis by blast
qed

theorem tick_polls_last_connection_first_witness:
  "bIsServerRunning two_clients
   \<and> HandleNewConnection test_net two_clients = Inr (two_clients, [Call_HasPendingConnection 100])
   \<and> distinct (ConnectedSockets two_clients)
   \<and> SocketSubsystem test_net
   \<and> (\<exists>s2 w2 t2. Tick_Internal test_engine test_net two_clients ([] :: test_world)
                      = Inr (s2, w2, [Call_HasPendingConnection 100] @ t2)
         \<and> polled t2 = [2, 1])
   \<and> Tick_Internal test_engine test_net two_clients []
       = Inr (two_clients, [],
              [Call_HasPendingConnection 100,
               Call_HasPendingData 2, Call_GetConnectionState 2,
               Call_HasPendingData 1, Call_GetConnectionState 1])"
proof -
  have a: "bIsServerRunning two_clients" by (simp add: two_clients_def)
  have b: "HandleNewConnection test_net two_clients = Inr (two_clients, [Call_HasPendingConnection 100])"
    by (simp add: HandleNewConnection_def net_defs)
  have c: "distinct (ConnectedSockets two_clients)" by (simp add: two_clients_def)
  have d: "SocketSubsystem test_net" by (simp add: test_net_def)
  have e: "GEngine test_engine w \<noteq> None \<and> GEngine test_engine w \<noteq> Some []" for w
    by (simp add: test_engine_def)
  have f: "Tick_Internal test_engine test_net two_clients []
       = Inr (two_clients, [],
              [Call_HasPendingConnection 100,
               Call_HasPendingData 2, Call_GetConnectionState 2,
               Call_HasPendingData 1, Call_GetConnectionState 1])"
    by (simp add: Tick_Internal_def HandleNewConnection_def HandleData_def net_defs)
  have "\<exists>s2 w2 t2. Tick_Internal test_engine test_net two_clients ([] :: test_world)
                      = Inr (s2, w2, [Call_HasPendingConnection 100] @ t2)
         \<and> polled t2 = [2, 1]"
    using tick_polls_last_connection_first [OF a b c d e, of "[]"]
    by (auto simp add: two_clients_def)
  with a b c d f show ?thesis by blast
qed

text \<open>
  C8. A connection that does not report \<^verbatim>\<open>SCS_Connected\<close> when the tick polls it is destroyed
  by exactly one call of \<^verbatim>\<open>DestroySocket\<close> in that tick and is no longer in the list
  afterwards; the list after the tick is the list after the accept without the
  disconnected sockets, so its length has gone down by one for each of them. (The code
  releases the handle by \<^verbatim>\<open>DestroySocket\<close> alone, without a call of \<^verbatim>\<open>Close\<close> of its own.)
\<close>

theorem tick_removes_disconnected:
  assumes "bIsServerRunning s"
    and "HandleNewConnection N s = Inr (s1, t1)"
    and "distinct (ConnectedSockets s1)"
    and "SocketSubsystem N"
    and "\<And>w. GEngine E w \<noteq> None \<and> GEngine E w \<noteq> Some []"
    and "c \<in> set (ConnectedSockets s1)"
    and "\<not> still_connected N c"
  shows "\<exists>s2 w2 t. Tick_Internal E N s w = Inr (s2, w2, t)
           \<and> count_list (destroyed_socks t) c = 1
           \<and> c \<notin> set (ConnectedSockets s2)
           \<and> ConnectedSockets s2 = filter (still_connected N) (ConnectedSockets s1)
           \<and> length (ConnectedSockets s2)
               + length (filter (\<lambda>c. \<not> still_connected N c) (ConnectedSockets s1))
               = length (ConnectedSockets s1)"
proof -
  let ?cs = "ConnectedSockets s1"
  obtain s2 w2 t2 where
    r: "Tick_Internal_for E N (length ?cs) s1 w = Inr (s2, w2, t2)"
    using Tick_Internal_for_returns [OF assms(5) assms(4) assms(3), of "length ?cs" w]
    by blast
  from Tick_Internal_for_effect [OF r assms(3)]
  have cs2: "ConnectedSockets s2 = filter (still_connected N) ?cs"
    and d2: "destroyed_socks t2 = rev (filter (\<lambda>c. \<not> still_connected N c) ?cs)"
    by simp_all
  have tick: "Tick_Internal E N s w = Inr (s2, w2, t1 @ t2)"
    using assms(1,2) r by (simp add: Tick_Internal_def)
  have "destroyed_socks t1 = []"
    using HandleNewConnection_effect [OF assms(2)] by simp
  then have "destroyed_socks (t1 @ t2) = rev (filter (\<lambda>c. \<not> still_connected N c) ?cs)"
    using d2 by (simp add: destroyed_append)
  moreover have "count_list (filter (\<lambda>c. \<not> still_connected N c) ?cs) c = 1"
    using assms(3,6,7) by (simp add: count_list_distinct)
  ultimately have once: "count_list (destroyed_socks (t1 @ t2)) c = 1" by simp
  have gone: "c \<notin> set (ConnectedSockets s2)"
    using cs2 assms(7) by simp
  have len: "length (ConnectedSockets s2)
               + length (filter (\<lambda>c. \<not> still_connected N c) ?cs) = length ?cs"
    using cs2 by (simp add: sum_length_filter_compl)
  from tick once gone cs2 len show ?thesis by blast
qed

theorem tick_removes_disconnected_witness:
  "bIsServerRunning two_clients
   \<and> HandleNewConnection drop_net two_clients = Inr (two_clients, [Call_HasPendingConnection 100])
   \<and> distinct (ConnectedSockets two_clients)
   \<and> SocketSubsystem drop_net
   \<and> 2 \<in> set (ConnectedSockets two_clients)
   \<and> \<not> still_connected drop_net 2
   \<and> (\<exists>s2 w2 t. Tick_Internal test_engine drop_net two_clients ([] :: test_world) = Inr (s2, w2, t)
         \<and> count_list (destroyed_socks t) 2 = 1
         \<and> ConnectedSockets s2 = [1])
   \<and> Tick_Internal test_engine drop_net two_clients []
       = Inr (two_clients\<lparr>ConnectedSockets := [1]\<rparr>, [],
              [Call_HasPendingConnection 100,
               Call_HasPendingData 2, Call_GetConnectionState 2,
               UE_LOG Log ''Client disconnected.'' [], Call_DestroySocket 2,
               Call_HasPendingData 1, Call_GetConnectionState 1])"
proof -
  have a: "bIsServerRunning two_clients" by (simp add: two_clients_def)
  have b: "HandleNewConnection drop_net two_clients = Inr (two_clients, [Call_HasPendingConnection 100])"
    by (simp add: HandleNewConnection_def net_defs)
  have c: "distinct (ConnectedSockets two_clients)" by (simp add: two_clients_def)
  have d: "SocketSubsystem drop_net" by (simp add: net_defs)
  have e: "GEngine test_engine w \<noteq> None \<and> GEngine test_engine w \<noteq> Some []" for w
    by (simp add: test_engine_def)
  have f: "2 \<in> set (ConnectedSockets two_clients)" by (simp add: two_clients_def)
  have g: "\<not> still_connected drop_net 2" by (simp add: still_connected_def net_defs)
  have h: "filter (still_connected drop_net) (ConnectedSockets two_clients) = [1]"
    by (simp add: still_connected_def net_defs)
  have i: "Tick_Internal test_engine drop_net two_clients []
       = Inr (two_clients\<lparr>ConnectedSockets := [1]\<rparr>, [],
              [Call_HasPendingConnection 100,
               Call_HasPendingData 2, Call_GetConnectionState 2,
               UE_LOG Log ''Client disconnected.'' [], Call_DestroySocket 2,
               Call_HasPendingData 1, Call_GetConnectionState 1])"
    by (simp add: Tick_Internal_def HandleNewConnection_def HandleData_def net_defs)
  have "\<exists>s2 w2 t. Tick_Internal test_engine drop_net two_clients ([] :: test_world) = Inr (s2, w2, t)
         \<and> count_list (destroyed_socks t) 2 = 1
         \<and> ConnectedSockets s2 = [1]"
    using tick_removes_disconnected [OF a b c d e f g, of "[]"] h by auto
  with a b c d f g i show ?thesis by blast
qed

lemma all_failures_return:
  "all_failures E w ms \<Longrightarrow> \<exists>w1 t. HandleData_while E c ms w = Inr (w1, t)"
proof (induction ms arbitrary: w)
  case Nil
  show ?case by simp
next
  case (Cons m ms)
  show ?case
  proof (cases "m = []")
    case True
    with Cons.prems have "all_failures E w ms" by simp
    from Cons.IH [OF this] True show ?thesis by auto
  next
    case False
    with Cons.prems obtain wa ta where
      h: "HandleCommand E w m = Inr (wa, ta)" and r: "all_failures E wa ms"
      by (auto split: sum.splits)
    from Cons.IH [OF r] h False show ?thesis by auto
  qed
qed

text \<open>
  C9. When every message read from a connection ends in a failure line and the connection
  still reports \<^verbatim>\<open>SCS_Connected\<close>, \<^verbatim>\<open>HandleData\<close> returns and the server object is the one
  it started with. Whatever the messages are, \<^verbatim>\<open>HandleData\<close> leaves the listening socket
  and the running flag alone, and it changes the connection list only when the connection
  does not report \<^verbatim>\<open>SCS_Connected\<close>, by removing that connection.
\<close>

theorem failures_keep_server_state:
  "(all_failures E w (PendingData N c) \<and> still_connected N c \<longrightarrow>
      (\<exists>w1 t. HandleData E N c s w = Inr (s, w1, t)))
   \<and> (\<forall>s1 w1 t. HandleData E N c s w = Inr (s1, w1, t) \<longrightarrow>
        ListenSocket s1 = ListenSocket s \<and> bIsServerRunning s1 = bIsServerRunning s
        \<and> (still_connected N c \<longrightarrow> s1 = s)
        \<and> (\<not> still_connected N c \<longrightarrow>
              ConnectedSockets s1 = removeAll c (ConnectedSockets s)))"
proof (intro conjI impI allI)
  assume a: "all_failures E w (PendingData N c) \<and> still_connected N c"
  then obtain w1 t where "HandleData_while E c (PendingData N c) w = Inr (w1, t)"
    using all_failures_return [of E w "PendingData N c" c] by blast
  with a show "\<exists>w1 t. HandleData E N c s w = Inr (s, w1, t)"
    by (simp add: HandleData_def still_connected_def)
next
  fix s1 w1 t
  assume h: "HandleData E N c s w = Inr (s1, w1, t)"
  note eff = HandleData_effect [OF h]
  from eff show "ListenSocket s1 = ListenSocket s" by (simp split: if_splits)
  from eff show "bIsServerRunning s1 = bIsServerRunning s" by (simp split: if_splits)
  { assume "still_connected N c" with eff show "s1 = s" by simp }
  { assume "\<not> still_connected N c"
    with eff show "ConnectedSockets s1 = removeAll c (ConnectedSockets s)" by simp }
qed

theorem failures_keep_server_state_witness:
  \<open>all_failures test_engine [] (PendingData noop_net 1) \<and> still_connected noop_net 1
   \<and> HandleData test_engine noop_net 1 two_clients []
       = Inr (two_clients, [],
              [Call_HasPendingData 1, Call_Recv 1,
               UE_LOG Log ''Received: %s'' [ArgS ''{"intent":"noop"}''],
               UE_LOG Warning ''Unknown intent: %s'' [ArgS ''noop''],
               Call_HasPendingData 1, Call_GetConnectionState 1])
   \<and> \<not> still_connected drop_net 2
   \<and> HandleData test_engine drop_net 2 two_clients []
       = Inr (two_clients\<lparr>ConnectedSockets := [1]\<rparr>, [],
              [Call_HasPendingData 2, Call_GetConnectionState 2,
               UE_LOG Log ''Client disconnected.'' [], Call_DestroySocket 2])\<close>
proof -
  have a: "all_failures test_engine [] (PendingData noop_net 1) \<and> still_connected noop_net 1"
    by (simp add: net_defs still_connected_def HandleCommand_def test_defs)
  have b: \<open>HandleData test_engine noop_net 1 two_clients []
       = Inr (two_clients, [],
              [Call_HasPendingData 1, Call_Recv 1,
               UE_LOG Log ''Received: %s'' [ArgS ''{"intent":"noop"}''],
               UE_LOG Warning ''Unknown intent: %s'' [ArgS ''noop''],
               Call_HasPendingData 1, Call_GetConnectionState 1])\<close>
    by (simp add: HandleData_def net_defs HandleCommand_def test_defs)
  have c: "\<not> still_connected drop_net 2"
    by (simp add: net_defs still_connected_def)
  have d: "HandleData test_engine drop_net 2 two_clients []
       = Inr (two_clients\<lparr>ConnectedSockets := [1]\<rparr>, [],
              [Call_HasPendingData 2, Call_GetConnectionState 2,
               UE_LOG Log ''Client disconnected.'' [], Call_DestroySocket 2])"
    by (simp add: HandleData_def net_defs)
  have e: "\<exists>w1 t. HandleData test_engine noop_net 1 two_clients [] = Inr (two_clients, w1, t)"
    using failures_keep_server_state [of test_engine "[]" noop_net 1 two_clients] a by blast
  from a b c d e show ?thesis by blast
qed

section \<open>The listening socket of a running server\<close>

lemma Start_Internal_invariant:
  "listening_invariant s \<Longrightarrow> Start_Internal N Port s = (r, s1, t) \<Longrightarrow> listening_invariant s1"
  by (auto simp add: Start_Internal_def listening_invariant_def split: if_splits option.splits)

lemma Stop_Internal_invariant:
  "listening_invariant s \<Longrightarrow> Stop_Internal N s = Inr (s1, t) \<Longrightarrow> listening_invariant s1"
  by (auto simp add: Stop_Internal_def listening_invariant_def
           split: if_splits option.splits sum.splits)

lemma Stop_Internal_stopped:
  "Stop_Internal N s = Inr (s1, t) \<Longrightarrow> \<not> bIsServerRunning s1"
  by (auto simp add: Stop_Internal_def split: if_splits option.splits sum.splits)

lemma Tick_Internal_for_frame:
  "Tick_Internal_for E N i s w = Inr (s1, w1, t) \<Longrightarrow>
     ListenSocket s1 = ListenSocket s \<and> bIsServerRunning s1 = bIsServerRunning s"
proof (induction i arbitrary: s w s1 w1 t)
  case 0
  then show ?case by simp
next
  case (Suc i)
  then obtain sa wa ta t2 where
    h: "HandleData E N (ConnectedSockets s ! i) s w = Inr (sa, wa, ta)" and
    r: "Tick_Internal_for E N i sa wa = Inr (s1, w1, t2)"
    by (auto split: sum.splits if_splits)
  from HandleData_effect [OF h] Suc.IH [OF r] show ?case
    by (simp split: if_splits)
qed

lemma Tick_Internal_invariant:
  assumes "listening_invariant s" and "Tick_Internal E N s w = Inr (s1, w1, t)"
  shows "listening_invariant s1"
proof (cases "bIsServerRunning s")
  case False
  with assms show ?thesis by (simp add: Tick_Internal_def)
next
  case True
  with assms(2) obtain sa ta t2 where
    h: "HandleNewConnection N s = Inr (sa, ta)" and
    r: "Tick_Internal_for E N (length (ConnectedSockets sa)) sa w = Inr (s1, w1, t2)"
    by (auto simp add: Tick_Internal_def split: sum.splits)
  from HandleNewConnection_effect [OF h] Tick_Internal_for_frame [OF r] assms(1)
  show ?thesis by (simp add: listening_invariant_def)
qed

lemma Get_invariant:
  "(\<forall>s. Instance = Some s \<longrightarrow> listening_invariant s) \<Longrightarrow> listening_invariant (Get Instance)"
  by (cases Instance) (simp_all add: Get_def UEMCPTCPServer_def listening_invariant_def)

lemma run_invariant:
  "run E cs Instance = Inr I1 \<Longrightarrow> (\<forall>s. Instance = Some s \<longrightarrow> listening_invariant s) \<Longrightarrow>
     (\<forall>s. I1 = Some s \<longrightarrow> listening_invariant s)"
proof (induction E cs Instance rule: run.induct)
  case (1 E Instance)
  then show ?case by simp
next
  case (2 E N Port cs Instance)
  obtain r s1 t where st: "Start_Internal N Port (Get Instance) = (r, s1, t)"
    by (cases "Start_Internal N Port (Get Instance)") auto
  then have S: "Start N Port Instance = (r, Some s1, t)" by (simp add: Start_def)
  have "listening_invariant s1"
    using Start_Internal_invariant [OF Get_invariant [OF "2.prems"(2)] st] .
  moreover from "2.prems"(1) S have "run E cs (Some s1) = Inr I1" by simp
  ultimately show ?case using "2.IH" [OF S [symmetric] refl] by simp
next
  case (3 E N cs Instance)
  from "3.prems"(1) obtain s1 t where st: "Stop_Internal N (Get Instance) = Inr (s1, t)"
    and rest: "run E cs (Some s1) = Inr I1"
    by (auto simp add: Stop_def split: sum.splits)
  then have S: "Stop N Instance = Inr (Some s1, t)" by (simp add: Stop_def)
  have "listening_invariant s1"
    using Stop_Internal_invariant [OF Get_invariant [OF "3.prems"(2)] st] .
  with "3.IH" [OF S refl] rest show ?case by simp
next
  case (4 E N w cs Instance)
  from "4.prems"(1) obtain s1 w1 t where st: "Tick_Internal E N (Get Instance) w = Inr (s1, w1, t)"
    and rest: "run E cs (Some s1) = Inr I1"
    by (auto simp add: Tick_def split: sum.splits)
  then have S: "Tick E N Instance w = Inr (Some s1, w1, t)" by (simp add: Tick_def)
  have "listening_invariant s1"
    using Tick_Internal_invariant [OF Get_invariant [OF "4.prems"(2)] st] .
  with "4.IH" [OF S refl refl] rest show ?case by simp
next
  case (5 E N cs Instance)
  from "5.prems"(1) obtain t where S: "Shutdown N Instance = Inr (None, t)"
    and rest: "run E cs None = Inr I1"
    by (auto simp add: Shutdown_def split: sum.splits option.splits)
  with "5.IH" [OF S refl] show ?case by simp
qed

text \<open>
  C10. After any sequence of \<^verbatim>\<open>Start\<close>, \<^verbatim>\<open>Stop\<close>, \<^verbatim>\<open>Tick\<close> and \<^verbatim>\<open>Shutdown\<close> calls that the
  process survives, a server whose running flag is set has a listening socket, so the
  accept step of the next tick does not dereference a null pointer.
\<close>

theorem running_server_has_listen_socket:
  assumes "run E calls None = Inr (Some s)" and "bIsServerRunning s"
  shows "ListenSocket s \<noteq> None \<and> (\<exists>s1 t1. HandleNewConnection N s = Inr (s1, t1))"
proof -
  from run_invariant [OF assms(1)] have "listening_invariant s" by simp
  with assms(2) obtain l where "ListenSocket s = Some l"
    by (auto simp add: listening_invariant_def)
  then show ?thesis
    by (auto simp add: HandleNewConnection_def split: option.splits)
qed

theorem running_server_has_listen_socket_witness:
  "run test_engine [Do_Start test_net 7000, Do_Tick test_net []] None
     = Inr (Some \<lparr>ListenSocket = Some 100, ConnectedSockets = [], bIsServerRunning = True\<rparr>)
   \<and> bIsServerRunning \<lparr>ListenSocket = Some 100, ConnectedSockets = [], bIsServerRunning = True\<rparr>
   \<and> ListenSocket \<lparr>ListenSocket = Some 100, ConnectedSockets = [], bIsServerRunning = True\<rparr> \<noteq> None
   \<and> HandleNewConnection test_net
        \<lparr>ListenSocket = Some 100, ConnectedSockets = [], bIsServerRunning = True\<rparr>
       = Inr (\<lparr>ListenSocket = Some 100, ConnectedSockets = [], bIsServerRunning = True\<rparr>,
              [Call_HasPendingConnection 100])"
proof -
  let ?s = "\<lparr>ListenSocket = Some 100, ConnectedSockets = [], bIsServerRunning = True\<rparr>"
  have a: "run test_engine [Do_Start test_net 7000, Do_Tick test_net []] None = Inr (Some ?s)"
    by (simp add: Start_def Tick_def Get_def UEMCPTCPServer_def Start_Internal_def
          Endpoint_Port_def Tick_Internal_def HandleNewConnection_def test_net_def)
  have b: "bIsServerRunning ?s" by simp
  have c: "HandleNewConnection test_net ?s = Inr (?s, [Call_HasPendingConnection 100])"
    by (simp add: HandleNewConnection_def test_net_def)
  from running_server_has_listen_socket [OF a b, of test_net] a b c
  show ?thesis by simp
qed

end
